theory Spec2Isabelle
  imports Main
begin

section \<open>The alert event DAO (internal/prometheus/dao/alert/event-dao)\<close>

text \<open>
  The DAO reads and writes one table of alert events through GORM, reads the system
  clock, writes to a zap logger and posts to a chat webhook. Each method is embedded
  as a function from the DAO's state to a result and the state after the call.
  Go's \<open>int\<close> and \<open>int64\<close> are modelled as \<open>int\<close>: the methods compare
  and store these numbers and never compute with them. A pointer argument is taken to be
  non-nil. The messages of the source are Chinese; errors are constructors, one per
  message, and log lines are ASCII paraphrases.
\<close>

subsection \<open>Rows\<close>

text \<open>
  Modelled from the spec: the declaration of \<open>model.MonitorAlertEvent\<close> is missing from
  the sources (of package model only menu.go is there). The fields are those of the
  spec's data model (section 3), under the names the methods use for them
  (\<open>event.ID\<close>, \<open>alertEvent.AlertName\<close>, ... and the columns \<open>created_at\<close>,
  \<open>updated_at\<close>, \<open>deleted_at\<close>). A zero \<open>DeletedAt\<close> means the row is live, a
  zero \<open>RenLingUserID\<close> means it is unclaimed.
\<close>

record MonitorAlertEvent =
  ID :: int
  CreatedAt :: int
  UpdatedAt :: int
  DeletedAt :: int
  AlertName :: string
  Fingerprint :: string
  Status :: string
  RuleID :: int
  SendGroupID :: int
  EventTimes :: int
  SilenceID :: string
  RenLingUserID :: int
  Labels :: "(string \<times> string) list"

subsection \<open>The storage engine behind GORM\<close>

text \<open>
  The statements that reach the engine: a \<open>SELECT\<close> (\<open>First\<close>, \<open>Find\<close>: the
  table is that of the destination's type) and the update chained on
  \<open>Model(&model.MonitorAlertEvent{})\<close>.

  The handle \<open>a.db\<close>, as \<open>gorm.Open\<close> returns it (the constructor stores the
  handle it is given, and no method binds it to a table): the rows of the alert event
  table in storage order; which statements fail on it (\<open>outage q = Some m\<close>: a
  statement of kind \<open>q\<close> fails with the message \<open>m\<close>, as when the engine is down
  or the context is cancelled); the engine's \<open>LIKE\<close> operator (pattern first; its
  case rules depend on the collation, so it is a parameter); and the statements issued
  so far. A statement that fails at the engine has still been issued.

  The errors of the storage layer: \<open>gorm.ErrRecordNotFound\<close>, the error GORM sets
  when a statement names no table (unsupported data type, table not set), and an error
  of the engine with its message.
\<close>

datatype sql = SELECT | UPDATE_Model

datatype gorm_error = ErrRecordNotFound | ErrTableNotSet | ErrEngine string

text \<open>
  How an update names its table: chained on \<open>Model(&model.MonitorAlertEvent{})\<close>, or
  on the handle alone.
\<close>

datatype model_clause = Model_MonitorAlertEvent | No_Model

record gorm_DB =
  rows :: "MonitorAlertEvent list"
  outage :: "sql \<Rightarrow> string option"
  like :: "string \<Rightarrow> string \<Rightarrow> bool"
  issued :: "sql list"

definition gorm_issue :: "sql \<Rightarrow> gorm_DB \<Rightarrow> gorm_DB" where
  "gorm_issue q d = d\<lparr>issued := issued d @ [q]\<rparr>"

text \<open>
  \<open>Where(cond).First(&dest, k)\<close>: the first row by primary key that satisfies the
  condition and has primary key \<open>k\<close>; \<open>ErrRecordNotFound\<close> when there is none.
\<close>

definition gorm_First ::
  "(MonitorAlertEvent \<Rightarrow> bool) \<Rightarrow> int \<Rightarrow> gorm_DB \<Rightarrow> (gorm_error + MonitorAlertEvent) \<times> gorm_DB" where
  "gorm_First cond k d =
     (case outage d SELECT of
        Some m \<Rightarrow> (Inl (ErrEngine m), gorm_issue SELECT d)
      | None \<Rightarrow>
          (case find (\<lambda>r. cond r \<and> ID r = k) (rows d) of
             None \<Rightarrow> (Inl ErrRecordNotFound, gorm_issue SELECT d)
           | Some r \<Rightarrow> (Inr r, gorm_issue SELECT d)))"

text \<open>\<open>Where(cond).Find(&dest)\<close>: every row that satisfies the condition.\<close>

definition gorm_Find ::
  "(MonitorAlertEvent \<Rightarrow> bool) \<Rightarrow> gorm_DB \<Rightarrow> (gorm_error + MonitorAlertEvent list) \<times> gorm_DB" where
  "gorm_Find cond d =
     (case outage d SELECT of
        Some m \<Rightarrow> (Inl (ErrEngine m), gorm_issue SELECT d)
      | None \<Rightarrow> (Inr (filter cond (rows d)), gorm_issue SELECT d))"

text \<open>
  \<open>Where(cond).Order("created_at DESC").Offset(offset).Limit(limit).Find(&dest)\<close>.
  The engine may order rows of equal \<open>created_at\<close> as it likes; the model keeps them in
  storage order.
\<close>

definition created_at_desc :: "MonitorAlertEvent list \<Rightarrow> MonitorAlertEvent list" where
  "created_at_desc rs = sort_key (\<lambda>r. - CreatedAt r) rs"

definition gorm_Find_page ::
  "(MonitorAlertEvent \<Rightarrow> bool) \<Rightarrow> int \<Rightarrow> int \<Rightarrow> gorm_DB \<Rightarrow>
     (gorm_error + MonitorAlertEvent list) \<times> gorm_DB" where
  "gorm_Find_page cond offset limit d =
     (case outage d SELECT of
        Some m \<Rightarrow> (Inl (ErrEngine m), gorm_issue SELECT d)
      | None \<Rightarrow>
          (Inr (take (nat limit) (drop (nat offset) (created_at_desc (filter cond (rows d))))),
           gorm_issue SELECT d))"

text \<open>
  \<open>Where(cond).Updates(...)\<close>. Chained on the model, every row that satisfies the
  condition gets the assignments, and the result is the number of rows the statement
  matched (\<open>RowsAffected\<close>). Chained on the handle alone and given a map, GORM has
  nothing to take the table from: it sets its table-not-set error before it builds a
  statement, nothing reaches the engine and no row changes.
\<close>

definition gorm_Updates ::
  "model_clause \<Rightarrow> (MonitorAlertEvent \<Rightarrow> bool) \<Rightarrow> (MonitorAlertEvent \<Rightarrow> MonitorAlertEvent) \<Rightarrow>
     gorm_DB \<Rightarrow> (gorm_error + nat) \<times> gorm_DB" where
  "gorm_Updates c cond assign d =
     (case c of
        No_Model \<Rightarrow> (Inl ErrTableNotSet, d)
      | Model_MonitorAlertEvent \<Rightarrow>
          (case outage d UPDATE_Model of
             Some m \<Rightarrow> (Inl (ErrEngine m), gorm_issue UPDATE_Model d)
           | None \<Rightarrow>
               (Inr (length (filter cond (rows d))),
                gorm_issue UPDATE_Model
                  (d\<lparr>rows := map (\<lambda>r. if cond r then assign r else r) (rows d)\<rparr>))))"

text \<open>
  Modelled from the spec: what \<open>Updates(event)\<close> assigns depends on the missing
  declaration of \<open>model.MonitorAlertEvent\<close>. Given a struct, GORM assigns the fields
  that are not the zero value of their type, and sets a tracked \<open>updated_at\<close> column to
  the current time whatever the struct holds; the spec has \<open>updatedAt\<close> refreshed on
  every mutation. The column holds Unix seconds (\<open>UpdateAlertEvent\<close> puts
  \<open>getTime()\<close> into it). \<open>t\<close> is the clock's reading.
\<close>

definition updates_struct :: "MonitorAlertEvent \<Rightarrow> int \<Rightarrow> MonitorAlertEvent \<Rightarrow> MonitorAlertEvent" where
  "updates_struct ev t r =
     r\<lparr>ID := (if ID ev \<noteq> 0 then ID ev else ID r),
       CreatedAt := (if CreatedAt ev \<noteq> 0 then CreatedAt ev else CreatedAt r),
       UpdatedAt := t,
       DeletedAt := (if DeletedAt ev \<noteq> 0 then DeletedAt ev else DeletedAt r),
       AlertName := (if AlertName ev \<noteq> [] then AlertName ev else AlertName r),
       Fingerprint := (if Fingerprint ev \<noteq> [] then Fingerprint ev else Fingerprint r),
       Status := (if Status ev \<noteq> [] then Status ev else Status r),
       RuleID := (if RuleID ev \<noteq> 0 then RuleID ev else RuleID r),
       SendGroupID := (if SendGroupID ev \<noteq> 0 then SendGroupID ev else SendGroupID r),
       EventTimes := (if EventTimes ev \<noteq> 0 then EventTimes ev else EventTimes r),
       SilenceID := (if SilenceID ev \<noteq> [] then SilenceID ev else SilenceID r),
       RenLingUserID := (if RenLingUserID ev \<noteq> 0 then RenLingUserID ev else RenLingUserID r),
       Labels := (if Labels ev \<noteq> [] then Labels ev else Labels r)\<rparr>"

subsection \<open>The webhook\<close>

text \<open>
  The HTTP client of the DAO: its timeout in seconds, the requests it has put on the wire
  and the answer of the remote end to a request (the response body, or a dispatch
  failure: timeout, connection error, a status other than 2xx).
\<close>

record http_request =
  verb :: string
  url :: string
  body :: string
  deadline :: nat

datatype http_failure = HttpFailure string

record http_Client =
  Timeout :: nat
  wire :: "http_request list"
  remote :: "http_request \<Rightarrow> http_failure + string"

text \<open>
  Modelled from the spec: \<open>pkg.PostWithJson\<close> (package pkg/utils of this repository)
  is missing from the sources. By the spec's section 4.3 it issues a single HTTP POST of
  the content with the client's timeout and returns the raw response body, or the
  dispatch failure.
\<close>

definition PostWithJson :: "http_Client \<Rightarrow> string \<Rightarrow> string \<Rightarrow> (http_failure + string) \<times> http_Client" where
  "PostWithJson c u content =
     (let req = \<lparr>verb = ''POST'', url = u, body = content, deadline = Timeout c\<rparr>
      in (remote c req, c\<lparr>wire := wire c @ [req]\<rparr>))"

subsection \<open>The DAO\<close>

datatype log_entry = LogError string | LogInfo string

text \<open>
  One constructor per error the methods build: \<open>InvalidID\<close> and \<open>InvalidEventID\<close> for
  the id checks, \<open>EventNotFound\<close> for a lookup that finds no row,
  \<open>EventNotFoundOrDeleted\<close> for an update that matches none, \<open>SendFailed\<close> wrapping a
  dispatch failure, and \<open>Gorm\<close> for an error of the storage layer returned as it is.
\<close>

datatype error =
    InvalidID int
  | InvalidEventID
  | EmptySearchName
  | NegativeOffset
  | NonPositiveLimit
  | EventNotFound int
  | EventNotFoundOrDeleted int
  | EmptyUrl
  | EmptyMessage
  | SendFailed http_failure
  | Gorm gorm_error

text \<open>
  The error kinds of the spec's section 7. The source has no error types; the kind of an
  error is read off the place that builds it. No method builds a \<open>ClaimConflict\<close>.
\<close>

datatype error_kind = ValidationError | NotFoundOrDeleted | ClaimConflict | StorageError | TransportError

fun kind_of :: "error \<Rightarrow> error_kind" where
  "kind_of (InvalidID _) = ValidationError"
| "kind_of InvalidEventID = ValidationError"
| "kind_of EmptySearchName = ValidationError"
| "kind_of NegativeOffset = ValidationError"
| "kind_of NonPositiveLimit = ValidationError"
| "kind_of EmptyUrl = ValidationError"
| "kind_of EmptyMessage = ValidationError"
| "kind_of (EventNotFound _) = NotFoundOrDeleted"
| "kind_of (EventNotFoundOrDeleted _) = NotFoundOrDeleted"
| "kind_of (SendFailed _) = TransportError"
| "kind_of (Gorm _) = StorageError"

text \<open>
  The state a method runs in: the fields of \<open>alertManagerEventDAO\<close> (the logger \<open>l\<close>
  as the lines written so far; \<open>userDao\<close> is never used) and the system clock in Unix
  seconds, which \<open>getTime\<close> and GORM read.
\<close>

record alertManagerEventDAO =
  db :: gorm_DB
  logger :: "log_entry list"
  httpClient :: http_Client
  clock :: int

definition NewAlertManagerEventDAO :: "gorm_DB \<Rightarrow> log_entry list \<Rightarrow>
    (http_request \<Rightarrow> http_failure + string) \<Rightarrow> int \<Rightarrow> alertManagerEventDAO" where
  "NewAlertManagerEventDAO d lg net t =
     \<lparr>db = d, logger = lg, httpClient = \<lparr>Timeout = 10, wire = [], remote = net\<rparr>, clock = t\<rparr>"

definition getTime :: "alertManagerEventDAO \<Rightarrow> int" where
  "getTime a = clock a"

definition log_line :: "log_entry \<Rightarrow> alertManagerEventDAO \<Rightarrow> alertManagerEventDAO" where
  "log_line e a = a\<lparr>logger := logger a @ [e]\<rparr>"

definition GetMonitorAlertEventById ::
  "int \<Rightarrow> alertManagerEventDAO \<Rightarrow> (error + MonitorAlertEvent) \<times> alertManagerEventDAO" where
  "GetMonitorAlertEventById k a =
     (if k \<le> 0 then
        (Inl (InvalidID k), log_line (LogError ''GetMonitorAlertEventById: invalid ID'') a)
      else
        (case gorm_First (\<lambda>r. DeletedAt r = 0) k (db a) of
           (Inl err, d) \<Rightarrow>
             (if err = ErrRecordNotFound then (Inl (EventNotFound k), a\<lparr>db := d\<rparr>)
              else (Inl (Gorm err), log_line (LogError ''get MonitorAlertEvent failed'') (a\<lparr>db := d\<rparr>)))
         | (Inr alertEvent, d) \<Rightarrow> (Inr alertEvent, a\<lparr>db := d\<rparr>)))"

definition SearchMonitorAlertEventByName ::
  "string \<Rightarrow> alertManagerEventDAO \<Rightarrow> (error + MonitorAlertEvent list) \<times> alertManagerEventDAO" where
  "SearchMonitorAlertEventByName name a =
     (if name = [] then (Inl EmptySearchName, a)
      else
        (case gorm_Find (\<lambda>r. DeletedAt r = 0 \<and> like (db a) (''%'' @ name @ ''%'') (AlertName r)) (db a) of
           (Inl err, d) \<Rightarrow>
             (Inl (Gorm err), log_line (LogError ''search MonitorAlertEvent by name failed'') (a\<lparr>db := d\<rparr>))
         | (Inr alertEvents, d) \<Rightarrow> (Inr alertEvents, a\<lparr>db := d\<rparr>)))"

definition GetMonitorAlertEventList ::
  "int \<Rightarrow> int \<Rightarrow> alertManagerEventDAO \<Rightarrow> (error + MonitorAlertEvent list) \<times> alertManagerEventDAO" where
  "GetMonitorAlertEventList offset limit a =
     (if offset < 0 then (Inl NegativeOffset, a)
      else if limit \<le> 0 then (Inl NonPositiveLimit, a)
      else
        (case gorm_Find_page (\<lambda>r. DeletedAt r = 0) offset limit (db a) of
           (Inl err, d) \<Rightarrow>
             (Inl (Gorm err), log_line (LogError ''get MonitorAlertEvent list failed'') (a\<lparr>db := d\<rparr>))
         | (Inr alertEvents, d) \<Rightarrow> (Inr alertEvents, a\<lparr>db := d\<rparr>)))"

definition EventAlertClaim ::
  "MonitorAlertEvent \<Rightarrow> alertManagerEventDAO \<Rightarrow> (error + unit) \<times> alertManagerEventDAO" where
  "EventAlertClaim event a =
     (if ID event \<le> 0 then (Inl InvalidEventID, a)
      else
        (case gorm_Updates Model_MonitorAlertEvent (\<lambda>r. ID r = ID event \<and> DeletedAt r = 0)
                (updates_struct event (clock a)) (db a) of
           (Inl err, d) \<Rightarrow>
             (Inl (Gorm err), log_line (LogError ''EventAlertClaim update failed'') (a\<lparr>db := d\<rparr>))
         | (Inr rowsAffected, d) \<Rightarrow>
             (if rowsAffected = 0 then (Inl (EventNotFoundOrDeleted (ID event)), a\<lparr>db := d\<rparr>)
              else (Inr (), a\<lparr>db := d\<rparr>))))"

definition GetAlertEventByID ::
  "int \<Rightarrow> alertManagerEventDAO \<Rightarrow> (error + MonitorAlertEvent) \<times> alertManagerEventDAO" where
  "GetAlertEventByID k a =
     (if k \<le> 0 then
        (Inl (InvalidID k), log_line (LogError ''GetAlertEventByID: invalid ID'') a)
      else
        (case gorm_First (\<lambda>r. DeletedAt r = 0) k (db a) of
           (Inl err, d) \<Rightarrow>
             (if err = ErrRecordNotFound then (Inl (EventNotFound k), a\<lparr>db := d\<rparr>)
              else (Inl (Gorm err), log_line (LogError ''get AlertEvent failed'') (a\<lparr>db := d\<rparr>)))
         | (Inr alertEvent, d) \<Rightarrow> (Inr alertEvent, a\<lparr>db := d\<rparr>)))"

text \<open>
  The map of \<open>UpdateAlertEvent\<close>: nine columns from the argument and \<open>updated_at\<close>
  from \<open>getTime\<close>. Its statement is chained on the handle with neither
  \<open>Model(...)\<close> nor \<open>Table(...)\<close> (the one of \<open>EventAlertClaim\<close> has
  \<open>Model(...)\<close>).
\<close>

definition update_columns :: "MonitorAlertEvent \<Rightarrow> int \<Rightarrow> MonitorAlertEvent \<Rightarrow> MonitorAlertEvent" where
  "update_columns alertEvent t r =
     r\<lparr>AlertName := AlertName alertEvent,
       Fingerprint := Fingerprint alertEvent,
       Status := Status alertEvent,
       RuleID := RuleID alertEvent,
       SendGroupID := SendGroupID alertEvent,
       EventTimes := EventTimes alertEvent,
       SilenceID := SilenceID alertEvent,
       RenLingUserID := RenLingUserID alertEvent,
       Labels := Labels alertEvent,
       UpdatedAt := t\<rparr>"

definition UpdateAlertEvent ::
  "MonitorAlertEvent \<Rightarrow> alertManagerEventDAO \<Rightarrow> (error + unit) \<times> alertManagerEventDAO" where
  "UpdateAlertEvent alertEvent a =
     (if ID alertEvent \<le> 0 then (Inl InvalidEventID, a)
      else
        (case gorm_Updates No_Model (\<lambda>r. ID r = ID alertEvent \<and> DeletedAt r = 0)
                (update_columns alertEvent (getTime a)) (db a) of
           (Inl err, d) \<Rightarrow>
             (Inl (Gorm err), log_line (LogError ''update AlertEvent failed'') (a\<lparr>db := d\<rparr>))
         | (Inr rowsAffected, d) \<Rightarrow>
             (if rowsAffected = 0 then (Inl (EventNotFoundOrDeleted (ID alertEvent)), a\<lparr>db := d\<rparr>)
              else (Inr (), a\<lparr>db := d\<rparr>))))"

text \<open>
  \<open>fmt.Sprintf\<close> puts the message between the two halves of the format string,
  byte for byte.
\<close>

definition message_content :: "string \<Rightarrow> string" where
  "message_content message =
     [CHR ''{'', CHR 0x22] @ ''msg_type'' @ [CHR 0x22, CHR '':'', CHR 0x22] @ ''text''
       @ [CHR 0x22, CHR '','', CHR 0x22] @ ''content'' @ [CHR 0x22, CHR '':'', CHR ''{'', CHR 0x22]
       @ ''text'' @ [CHR 0x22, CHR '':'', CHR 0x22]
       @ message @ [CHR 0x22, CHR ''}'', CHR ''}'']"

definition SendMessageToGroup ::
  "string \<Rightarrow> string \<Rightarrow> alertManagerEventDAO \<Rightarrow> (error + unit) \<times> alertManagerEventDAO" where
  "SendMessageToGroup u message a =
     (if u = [] then (Inl EmptyUrl, a)
      else if message = [] then (Inl EmptyMessage, a)
      else
        (case PostWithJson (httpClient a) u (message_content message) of
           (Inl err, c) \<Rightarrow>
             (Inl (SendFailed err), log_line (LogError ''send group message failed'') (a\<lparr>httpClient := c\<rparr>))
         | (Inr resp, c) \<Rightarrow>
             (Inr (), log_line (LogInfo ''send group message succeeded'') (a\<lparr>httpClient := c\<rparr>))))"

subsection \<open>Reading a payload back\<close>

text \<open>
  The webhook expects a JSON document of the shape
  \<^verbatim>\<open>{"msg_type":"text","content":{"text":"<message>"}}\<close>. To say what text such a
  document carries, \<open>content_text\<close> reads one back by the grammar of JSON strings
  (RFC 8259): after the opening quotation mark, characters up to the first quotation
  mark that is not escaped; a backslash starts an escape; a control character may not
  stand unescaped. This reader follows the JSON grammar, not the source. Escapes of the
  form \<open>\u....\<close> are left out of it (it rejects them).
\<close>

definition quotation_mark :: char where
  "quotation_mark = CHR 0x22"

definition reverse_solidus :: char where
  "reverse_solidus = CHR 0x5C"

definition json_plain :: "char \<Rightarrow> bool" where
  "json_plain c = (c \<noteq> quotation_mark \<and> c \<noteq> reverse_solidus \<and> (32::nat) \<le> of_char c)"

definition json_unescape :: "char \<Rightarrow> char option" where
  "json_unescape e =
     (if e = quotation_mark \<or> e = reverse_solidus \<or> e = CHR ''/'' then Some e
      else if e = CHR ''b'' then Some (CHR 0x08)
      else if e = CHR ''f'' then Some (CHR 0x0C)
      else if e = CHR ''n'' then Some (CHR 0x0A)
      else if e = CHR ''r'' then Some (CHR 0x0D)
      else if e = CHR ''t'' then Some (CHR 0x09)
      else None)"

fun json_chars :: "string \<Rightarrow> (string \<times> string) option" where
  "json_chars [] = None"
| "json_chars [c] = (if c = quotation_mark then Some ([], []) else None)"
| "json_chars (c # e # cs) =
     (if c = quotation_mark then Some ([], e # cs)
      else if c = reverse_solidus then
        (case json_unescape e of
           None \<Rightarrow> None
         | Some x \<Rightarrow> (case json_chars cs of None \<Rightarrow> None | Some (t, rest) \<Rightarrow> Some (x # t, rest)))
      else if json_plain c then
        (case json_chars (e # cs) of None \<Rightarrow> None | Some (t, rest) \<Rightarrow> Some (c # t, rest))
      else None)"

definition content_prefix :: string where
  "content_prefix =
     [CHR ''{'', CHR 0x22] @ ''msg_type'' @ [CHR 0x22, CHR '':'', CHR 0x22] @ ''text''
       @ [CHR 0x22, CHR '','', CHR 0x22] @ ''content'' @ [CHR 0x22, CHR '':'', CHR ''{'', CHR 0x22]
       @ ''text'' @ [CHR 0x22, CHR '':'', CHR 0x22]"

definition content_text :: "string \<Rightarrow> string option" where
  "content_text doc =
     (if take (length content_prefix) doc = content_prefix then
        (case json_chars (drop (length content_prefix) doc) of
           None \<Rightarrow> None
         | Some (t, rest) \<Rightarrow> if rest = ''}}'' then Some t else None)
      else None)"

subsection \<open>A small table to run the methods on\<close>

text \<open>
  Event 42 is live and unclaimed, event 7 is soft-deleted, event 43 is live and claimed
  by operator 1. The engine of the sample matches \<open>LIKE\<close> patterns case-sensitively,
  with \<open>%\<close> for any run of characters and \<open>_\<close> for any one.
\<close>

fun sql_like :: "string \<Rightarrow> string \<Rightarrow> bool" where
  "sql_like [] s = (s = [])"
| "sql_like (p # ps) [] = (p = CHR ''%'' \<and> sql_like ps [])"
| "sql_like (p # ps) (c # cs) =
     (if p = CHR ''%'' then sql_like ps (c # cs) \<or> sql_like (p # ps) cs
      else (p = CHR ''_'' \<or> p = c) \<and> sql_like ps cs)"

definition blank_event :: MonitorAlertEvent where
  "blank_event =
     \<lparr>ID = 0, CreatedAt = 0, UpdatedAt = 0, DeletedAt = 0, AlertName = [], Fingerprint = [],
      Status = [], RuleID = 0, SendGroupID = 0, EventTimes = 0, SilenceID = [],
      RenLingUserID = 0, Labels = []\<rparr>"

definition event42 :: MonitorAlertEvent where
  "event42 =
     \<lparr>ID = 42, CreatedAt = 1000, UpdatedAt = 1000, DeletedAt = 0, AlertName = ''HighCPU'',
      Fingerprint = ''fp42'', Status = ''firing'', RuleID = 3, SendGroupID = 5, EventTimes = 1,
      SilenceID = [], RenLingUserID = 0, Labels = [(''job'', ''node'')]\<rparr>"

definition event7 :: MonitorAlertEvent where
  "event7 =
     \<lparr>ID = 7, CreatedAt = 900, UpdatedAt = 1500, DeletedAt = 1500, AlertName = ''HighCPU'',
      Fingerprint = ''fp7'', Status = ''firing'', RuleID = 3, SendGroupID = 5, EventTimes = 2,
      SilenceID = [], RenLingUserID = 0, Labels = []\<rparr>"

definition event43 :: MonitorAlertEvent where
  "event43 =
     \<lparr>ID = 43, CreatedAt = 1100, UpdatedAt = 1200, DeletedAt = 0, AlertName = ''DiskFull'',
      Fingerprint = ''fp43'', Status = ''firing'', RuleID = 4, SendGroupID = 5, EventTimes = 1,
      SilenceID = [], RenLingUserID = 1, Labels = []\<rparr>"

definition sample_db :: gorm_DB where
  "sample_db = \<lparr>rows = [event42, event7, event43], outage = (\<lambda>q. None), like = sql_like, issued = []\<rparr>"

definition sample_dao :: alertManagerEventDAO where
  "sample_dao = NewAlertManagerEventDAO sample_db [] (\<lambda>req. Inr ''ok'') 2000"

text \<open>
  The same state with one row taken off the table: what the methods would see if the row
  were not there.
\<close>

definition without_row :: "MonitorAlertEvent \<Rightarrow> alertManagerEventDAO \<Rightarrow> alertManagerEventDAO" where
  "without_row r a = a\<lparr>db := (db a)\<lparr>rows := remove1 r (rows (db a))\<rparr>\<rparr>"

section \<open>Properties\<close>

subsection \<open>Logging leaves the storage handle and the HTTP client alone\<close>

lemma db_log_line: "db (log_line e a) = db a"
  by (simp add: log_line_def)

lemma httpClient_log_line: "httpClient (log_line e a) = httpClient a"
  by (simp add: log_line_def)

subsection \<open>Validation comes before any storage access\<close>

text \<open>
  C2. With a non-positive id, \<open>GetMonitorAlertEventById\<close>, \<open>GetAlertEventByID\<close>,
  \<open>EventAlertClaim\<close> and \<open>UpdateAlertEvent\<close> return an error of kind
  \<open>ValidationError\<close> and leave the storage handle as it was: no statement is
  issued and no row changes. The same holds for \<open>SearchMonitorAlertEventByName\<close> with
  the empty name and for \<open>GetMonitorAlertEventList\<close> with a negative offset or a
  limit that is not positive.
\<close>

theorem validation_before_storage:
  "(k \<le> 0 \<longrightarrow>
      (\<exists>e. fst (GetMonitorAlertEventById k a) = Inl e \<and> kind_of e = ValidationError)
      \<and> db (snd (GetMonitorAlertEventById k a)) = db a
      \<and> (\<exists>e. fst (GetAlertEventByID k a) = Inl e \<and> kind_of e = ValidationError)
      \<and> db (snd (GetAlertEventByID k a)) = db a)
   \<and> (ID ev \<le> 0 \<longrightarrow>
      (\<exists>e. fst (EventAlertClaim ev a) = Inl e \<and> kind_of e = ValidationError)
      \<and> db (snd (EventAlertClaim ev a)) = db a
      \<and> (\<exists>e. fst (UpdateAlertEvent ev a) = Inl e \<and> kind_of e = ValidationError)
      \<and> db (snd (UpdateAlertEvent ev a)) = db a)
   \<and> (name = [] \<longrightarrow>
      (\<exists>e. fst (SearchMonitorAlertEventByName name a) = Inl e \<and> kind_of e = ValidationError)
      \<and> db (snd (SearchMonitorAlertEventByName name a)) = db a)
   \<and> (offset < 0 \<or> limit \<le> 0 \<longrightarrow>
      (\<exists>e. fst (GetMonitorAlertEventList offset limit a) = Inl e \<and> kind_of e = ValidationError)
      \<and> db (snd (GetMonitorAlertEventList offset limit a)) = db a)"
  by (simp add: GetMonitorAlertEventById_def GetAlertEventByID_def EventAlertClaim_def
      UpdateAlertEvent_def SearchMonitorAlertEventByName_def GetMonitorAlertEventList_def
      db_log_line)

theorem validation_before_storage_witness:
  "fst (GetMonitorAlertEventById (- 3) sample_dao) = Inl (InvalidID (- 3))
   \<and> issued (db (snd (GetMonitorAlertEventById (- 3) sample_dao))) = []
   \<and> fst (GetAlertEventByID (- 3) sample_dao) = Inl (InvalidID (- 3))
   \<and> fst (EventAlertClaim blank_event sample_dao) = Inl InvalidEventID
   \<and> fst (UpdateAlertEvent blank_event sample_dao) = Inl InvalidEventID
   \<and> db (snd (UpdateAlertEvent blank_event sample_dao)) = sample_db
   \<and> fst (SearchMonitorAlertEventByName [] sample_dao) = Inl EmptySearchName
   \<and> fst (GetMonitorAlertEventList 0 0 sample_dao) = Inl NonPositiveLimit
   \<and> db (snd (GetMonitorAlertEventList 0 0 sample_dao)) = sample_db
   \<and> fst (GetMonitorAlertEventList (- 1) 5 sample_dao) = Inl NegativeOffset"
  using validation_before_storage [of "- 3" sample_dao blank_event "[]" 0 0]
    validation_before_storage [of 0 sample_dao blank_event "[]" "- 1" 5]
  by (simp add: GetMonitorAlertEventById_def GetAlertEventByID_def EventAlertClaim_def
      UpdateAlertEvent_def SearchMonitorAlertEventByName_def GetMonitorAlertEventList_def
      db_log_line blank_event_def sample_dao_def NewAlertManagerEventDAO_def sample_db_def)

subsection \<open>An empty url or message sends nothing\<close>

text \<open>
  C8. \<open>SendMessageToGroup\<close> with an empty url or an empty message returns an error of
  kind \<open>ValidationError\<close> and puts no request on the wire: the whole state, the
  client's wire included, is as before.
\<close>

theorem empty_url_or_message_sends_nothing:
  "u = [] \<or> message = [] \<Longrightarrow>
     (\<exists>e. fst (SendMessageToGroup u message a) = Inl e \<and> kind_of e = ValidationError)
     \<and> wire (httpClient (snd (SendMessageToGroup u message a))) = wire (httpClient a)
     \<and> snd (SendMessageToGroup u message a) = a"
  by (auto simp add: SendMessageToGroup_def)

theorem empty_url_or_message_sends_nothing_witness:
  "fst (SendMessageToGroup [] ''msg'' sample_dao) = Inl EmptyUrl
   \<and> wire (httpClient (snd (SendMessageToGroup [] ''msg'' sample_dao))) = []
   \<and> fst (SendMessageToGroup ''http://x'' [] sample_dao) = Inl EmptyMessage
   \<and> wire (httpClient (snd (SendMessageToGroup ''http://x'' [] sample_dao))) = []"
  using empty_url_or_message_sends_nothing [of "[]" "''msg''" sample_dao]
    empty_url_or_message_sends_nothing [of "''http://x''" "[]" sample_dao]
  by (simp add: SendMessageToGroup_def sample_dao_def NewAlertManagerEventDAO_def)

subsection \<open>Facts about the storage layer\<close>

lemma find_by_key:
  "distinct (map ID rs) \<Longrightarrow> r \<in> set rs \<Longrightarrow> P r \<Longrightarrow>
     find (\<lambda>x. P x \<and> ID x = ID r) rs = Some r"
proof (induction rs)
  case Nil
  then show ?case by simp
next
  case (Cons x rs)
  show ?case
  proof (cases "x = r")
    case True
    with Cons.prems show ?thesis by simp
  next
    case False
    with Cons.prems have "r \<in> set rs" and "ID x \<noteq> ID r"
      by (auto simp: image_iff)
    with Cons show ?thesis by simp
  qed
qed

lemma find_no_live:
  "(\<forall>r\<in>set rs. ID r = k \<longrightarrow> DeletedAt r \<noteq> 0) \<Longrightarrow>
     find (\<lambda>r. DeletedAt r = 0 \<and> ID r = k) rs = None"
  by (auto simp: find_None_iff)

lemma key_of_deleted:
  "distinct (map ID rs) \<Longrightarrow> r \<in> set rs \<Longrightarrow> DeletedAt r \<noteq> 0 \<Longrightarrow>
     \<forall>x\<in>set rs. ID x = ID r \<longrightarrow> DeletedAt x \<noteq> 0"
  by (auto simp: distinct_map inj_on_def)

lemma map_unmatched: "(\<forall>r\<in>set rs. \<not> P r) \<Longrightarrow> map (\<lambda>r. if P r then f r else r) rs = rs"
  by (induction rs) auto

lemma filter_unmatched: "(\<forall>r\<in>set rs. \<not> P r) \<Longrightarrow> filter P rs = []"
  by (induction rs) auto

subsection \<open>What each method returns, and the rows it leaves\<close>

lemma GetMonitorAlertEventById_fst:
  "fst (GetMonitorAlertEventById k a) =
     (if k \<le> 0 then Inl (InvalidID k)
      else case outage (db a) SELECT of
        Some m \<Rightarrow> Inl (Gorm (ErrEngine m))
      | None \<Rightarrow>
          (case find (\<lambda>r. DeletedAt r = 0 \<and> ID r = k) (rows (db a)) of
             None \<Rightarrow> Inl (EventNotFound k)
           | Some r \<Rightarrow> Inr r))"
  by (simp add: GetMonitorAlertEventById_def gorm_First_def split: option.splits)

lemma GetAlertEventByID_fst:
  "fst (GetAlertEventByID k a) =
     (if k \<le> 0 then Inl (InvalidID k)
      else case outage (db a) SELECT of
        Some m \<Rightarrow> Inl (Gorm (ErrEngine m))
      | None \<Rightarrow>
          (case find (\<lambda>r. DeletedAt r = 0 \<and> ID r = k) (rows (db a)) of
             None \<Rightarrow> Inl (EventNotFound k)
           | Some r \<Rightarrow> Inr r))"
  by (simp add: GetAlertEventByID_def gorm_First_def split: option.splits)

lemma GetMonitorAlertEventById_db:
  "db (snd (GetMonitorAlertEventById k a)) = (if k \<le> 0 then db a else gorm_issue SELECT (db a))"
  by (simp add: GetMonitorAlertEventById_def gorm_First_def db_log_line split: option.splits)

lemma GetAlertEventByID_db:
  "db (snd (GetAlertEventByID k a)) = (if k \<le> 0 then db a else gorm_issue SELECT (db a))"
  by (simp add: GetAlertEventByID_def gorm_First_def db_log_line split: option.splits)

lemma EventAlertClaim_fst:
  "fst (EventAlertClaim ev a) =
     (if ID ev \<le> 0 then Inl InvalidEventID
      else case outage (db a) UPDATE_Model of
        Some m \<Rightarrow> Inl (Gorm (ErrEngine m))
      | None \<Rightarrow>
          if filter (\<lambda>r. ID r = ID ev \<and> DeletedAt r = 0) (rows (db a)) = []
          then Inl (EventNotFoundOrDeleted (ID ev)) else Inr ())"
  by (simp add: EventAlertClaim_def gorm_Updates_def split: option.splits)

lemma UpdateAlertEvent_fst:
  "fst (UpdateAlertEvent ev a) =
     (if ID ev \<le> 0 then Inl InvalidEventID else Inl (Gorm ErrTableNotSet))"
  by (simp add: UpdateAlertEvent_def gorm_Updates_def)

lemma EventAlertClaim_rows:
  "rows (db (snd (EventAlertClaim ev a))) =
     (if ID ev \<le> 0 \<or> outage (db a) UPDATE_Model \<noteq> None then rows (db a)
      else map (\<lambda>r. if ID r = ID ev \<and> DeletedAt r = 0 then updates_struct ev (clock a) r else r)
             (rows (db a)))"
  by (auto simp add: EventAlertClaim_def gorm_Updates_def gorm_issue_def db_log_line
      split: option.splits)

lemma UpdateAlertEvent_db: "db (snd (UpdateAlertEvent ev a)) = db a"
  by (simp add: UpdateAlertEvent_def gorm_Updates_def db_log_line)

lemma UpdateAlertEvent_never_succeeds: "fst (UpdateAlertEvent ev a) \<noteq> Inr ()"
  by (simp add: UpdateAlertEvent_fst)

subsection \<open>The two lookups by id\<close>

text \<open>
  C9. \<open>GetMonitorAlertEventById\<close> and \<open>GetAlertEventByID\<close> return the same result
  and leave the same storage handle, for every id and state (they differ in the log
  lines they write). The result is the \<open>InvalidID\<close> validation error for a non-positive
  id, \<open>EventNotFound\<close> (of kind \<open>NotFoundOrDeleted\<close>) when the \<open>SELECT\<close> runs
  and no live row has the id, and the row itself when it is live and ids are unique.
\<close>

theorem lookups_agree:
  "fst (GetMonitorAlertEventById k a) = fst (GetAlertEventByID k a)
   \<and> db (snd (GetMonitorAlertEventById k a)) = db (snd (GetAlertEventByID k a))
   \<and> (k \<le> 0 \<longrightarrow> fst (GetAlertEventByID k a) = Inl (InvalidID k)
        \<and> kind_of (InvalidID k) = ValidationError)
   \<and> (0 < k \<and> outage (db a) SELECT = None \<and> (\<forall>r\<in>set (rows (db a)). ID r = k \<longrightarrow> DeletedAt r \<noteq> 0) \<longrightarrow>
        fst (GetAlertEventByID k a) = Inl (EventNotFound k)
        \<and> kind_of (EventNotFound k) = NotFoundOrDeleted)
   \<and> (0 < ID r \<and> outage (db a) SELECT = None \<and> distinct (map ID (rows (db a)))
        \<and> r \<in> set (rows (db a)) \<and> DeletedAt r = 0 \<longrightarrow>
        fst (GetAlertEventByID (ID r) a) = Inr r \<and> fst (GetMonitorAlertEventById (ID r) a) = Inr r)"
  by (simp add: GetMonitorAlertEventById_fst GetAlertEventByID_fst GetMonitorAlertEventById_db
      GetAlertEventByID_db find_no_live find_by_key)

theorem lookups_agree_witness:
  "fst (GetMonitorAlertEventById 0 sample_dao) = Inl (InvalidID 0)
   \<and> fst (GetAlertEventByID 0 sample_dao) = Inl (InvalidID 0)
   \<and> fst (GetMonitorAlertEventById 7 sample_dao) = Inl (EventNotFound 7)
   \<and> fst (GetAlertEventByID 7 sample_dao) = Inl (EventNotFound 7)
   \<and> fst (GetMonitorAlertEventById 42 sample_dao) = Inr event42
   \<and> fst (GetAlertEventByID 42 sample_dao) = Inr event42"
  using lookups_agree [of 0 sample_dao event42] lookups_agree [of 7 sample_dao event42]
  by (simp add: sample_dao_def NewAlertManagerEventDAO_def sample_db_def event42_def
      event7_def event43_def)

subsection \<open>An update that matches no row\<close>

text \<open>
  When no live row has the event's id (the row does not exist or is soft-deleted) and
  its statement runs, \<open>EventAlertClaim\<close> matches zero rows and returns
  \<open>EventNotFoundOrDeleted\<close>, an error of kind \<open>NotFoundOrDeleted\<close>; when the
  statement fails it returns the engine's error, of kind \<open>StorageError\<close>. Either way
  no row changes.
\<close>

lemma claim_of_missing_row:
  assumes "0 < ID ev" and "\<forall>r\<in>set (rows (db a)). ID r = ID ev \<longrightarrow> DeletedAt r \<noteq> 0"
  shows "outage (db a) UPDATE_Model = None \<Longrightarrow>
           fst (EventAlertClaim ev a) = Inl (EventNotFoundOrDeleted (ID ev))"
    and "rows (db (snd (EventAlertClaim ev a))) = rows (db a)"
proof -
  from assms(2) have un: "\<forall>r\<in>set (rows (db a)). \<not> (ID r = ID ev \<and> DeletedAt r = 0)"
    by blast
  have f: "filter (\<lambda>r. ID r = ID ev \<and> DeletedAt r = 0) (rows (db a)) = []"
    using un by (rule filter_unmatched)
  have m: "\<And>g. map (\<lambda>r. if ID r = ID ev \<and> DeletedAt r = 0 then g r else r) (rows (db a)) = rows (db a)"
    using un by (rule map_unmatched)
  show "outage (db a) UPDATE_Model = None \<Longrightarrow>
      fst (EventAlertClaim ev a) = Inl (EventNotFoundOrDeleted (ID ev))"
    using assms(1) by (simp add: f EventAlertClaim_fst)
  show "rows (db (snd (EventAlertClaim ev a))) = rows (db a)"
    by (simp add: m EventAlertClaim_rows)
qed

lemma claim_on_failing_engine:
  assumes "0 < ID ev" and "outage (db a) UPDATE_Model = Some m"
  shows "fst (EventAlertClaim ev a) = Inl (Gorm (ErrEngine m))"
    and "rows (db (snd (EventAlertClaim ev a))) = rows (db a)"
  using assms by (simp_all add: EventAlertClaim_fst EventAlertClaim_rows)

text \<open>
  C4, at the update of event 999999, which is not in the table. \<open>UpdateAlertEvent\<close>
  does not reach the count of affected rows: GORM refuses its statement, which names no
  table, and the method returns that error, of kind \<open>StorageError\<close>, not
  \<open>EventNotFoundOrDeleted\<close>. Nothing is issued to the engine and no row changes.
  (\<open>EventAlertClaim\<close> for the same id returns \<open>EventNotFoundOrDeleted\<close>.)
\<close>

theorem update_of_missing_row_is_refused:
  "fst (UpdateAlertEvent (blank_event\<lparr>ID := 999999\<rparr>) sample_dao) = Inl (Gorm ErrTableNotSet)
   \<and> kind_of (Gorm ErrTableNotSet) = StorageError
   \<and> fst (UpdateAlertEvent (blank_event\<lparr>ID := 999999\<rparr>) sample_dao)
       \<noteq> Inl (EventNotFoundOrDeleted 999999)
   \<and> db (snd (UpdateAlertEvent (blank_event\<lparr>ID := 999999\<rparr>) sample_dao)) = sample_db
   \<and> fst (EventAlertClaim (blank_event\<lparr>ID := 999999\<rparr>) sample_dao)
       = Inl (EventNotFoundOrDeleted 999999)"
  by (simp add: UpdateAlertEvent_fst UpdateAlertEvent_db EventAlertClaim_fst blank_event_def
      sample_dao_def NewAlertManagerEventDAO_def sample_db_def event42_def event7_def event43_def)

subsection \<open>Search and paging\<close>

lemma SearchMonitorAlertEventByName_fst:
  "fst (SearchMonitorAlertEventByName name a) =
     (if name = [] then Inl EmptySearchName
      else case outage (db a) SELECT of
        Some m \<Rightarrow> Inl (Gorm (ErrEngine m))
      | None \<Rightarrow>
          Inr (filter (\<lambda>r. DeletedAt r = 0 \<and> like (db a) (''%'' @ name @ ''%'') (AlertName r))
                (rows (db a))))"
  by (simp add: SearchMonitorAlertEventByName_def gorm_Find_def split: option.splits)

lemma GetMonitorAlertEventList_fst:
  "fst (GetMonitorAlertEventList offset limit a) =
     (if offset < 0 then Inl NegativeOffset
      else if limit \<le> 0 then Inl NonPositiveLimit
      else case outage (db a) SELECT of
        Some m \<Rightarrow> Inl (Gorm (ErrEngine m))
      | None \<Rightarrow>
          Inr (take (nat limit) (drop (nat offset)
                (created_at_desc (filter (\<lambda>r. DeletedAt r = 0) (rows (db a)))))))"
  by (simp add: GetMonitorAlertEventList_def gorm_Find_page_def split: option.splits)

lemma page_subset:
  "x \<in> set (take n (drop m (created_at_desc (filter P rs)))) \<Longrightarrow> x \<in> set rs \<and> P x"
proof -
  assume "x \<in> set (take n (drop m (created_at_desc (filter P rs))))"
  then have "x \<in> set (created_at_desc (filter P rs))"
    by (meson in_set_takeD in_set_dropD)
  then show ?thesis
    by (simp add: created_at_desc_def)
qed

lemma created_at_desc_sorted:
  "sorted_wrt (\<lambda>x y. CreatedAt y \<le> CreatedAt x) (created_at_desc rs)"
proof -
  have "sorted (map (\<lambda>r. - CreatedAt r) (created_at_desc rs))"
    unfolding created_at_desc_def by (rule sorted_sort_key)
  then show ?thesis
    by (simp add: sorted_map)
qed

lemma page_sorted:
  "sorted_wrt (\<lambda>x y. CreatedAt y \<le> CreatedAt x) (take n (drop m (created_at_desc rs)))"
  by (intro sorted_wrt_take sorted_wrt_drop created_at_desc_sorted)

lemma length_created_at_desc: "length (created_at_desc rs) = length rs"
  by (simp add: created_at_desc_def)

text \<open>
  C6. With an offset that is not negative, a limit \<open>N > 0\<close> and a \<open>SELECT\<close>
  that runs, \<open>GetMonitorAlertEventList\<close> returns a list of at most \<open>N\<close> rows of
  the table (as many as there are live rows past the offset, up to \<open>N\<close>), all live,
  in descending order of \<open>CreatedAt\<close>; when the offset is at least the number of live
  rows, the list is empty (and the result is still a success).
\<close>

theorem list_page:
  assumes "0 \<le> offset" and "0 < limit" and "outage (db a) SELECT = None"
  shows "\<exists>xs. fst (GetMonitorAlertEventList offset limit a) = Inr xs
           \<and> int (length xs) \<le> limit
           \<and> length xs = min (nat limit)
                 (length (filter (\<lambda>r. DeletedAt r = 0) (rows (db a))) - nat offset)
           \<and> (\<forall>x\<in>set xs. x \<in> set (rows (db a)) \<and> DeletedAt x = 0)
           \<and> sorted_wrt (\<lambda>x y. CreatedAt y \<le> CreatedAt x) xs
           \<and> (int (length (filter (\<lambda>r. DeletedAt r = 0) (rows (db a)))) \<le> offset \<longrightarrow> xs = [])"
proof -
  let ?live = "filter (\<lambda>r. DeletedAt r = 0) (rows (db a))"
  let ?xs = "take (nat limit) (drop (nat offset) (created_at_desc ?live))"
  have res: "fst (GetMonitorAlertEventList offset limit a) = Inr ?xs"
    using assms by (simp add: GetMonitorAlertEventList_fst)
  have len: "int (length ?xs) \<le> limit"
    using assms(2) by simp
  have exact: "length ?xs = min (nat limit) (length ?live - nat offset)"
    by (simp add: length_created_at_desc)
  have live: "\<forall>x\<in>set ?xs. x \<in> set (rows (db a)) \<and> DeletedAt x = 0"
    using page_subset [of _ "nat limit" "nat offset" "\<lambda>r. DeletedAt r = 0" "rows (db a)"] by blast
  have ord: "sorted_wrt (\<lambda>x y. CreatedAt y \<le> CreatedAt x) ?xs"
    by (rule page_sorted)
  have beyond: "int (length ?live) \<le> offset \<longrightarrow> ?xs = []"
    using assms(1) by (simp add: length_created_at_desc)
  from res len exact live ord beyond show ?thesis by blast
qed

theorem list_page_witness:
  "outage (db sample_dao) SELECT = None
   \<and> fst (GetMonitorAlertEventList 0 5 sample_dao) = Inr [event43, event42]
   \<and> fst (GetMonitorAlertEventList 1 1 sample_dao) = Inr [event42]
   \<and> fst (GetMonitorAlertEventList 2 5 sample_dao) = Inr []"
  using list_page [of 0 5 sample_dao] list_page [of 2 5 sample_dao]
  by (simp add: GetMonitorAlertEventList_fst created_at_desc_def sample_dao_def
      NewAlertManagerEventDAO_def sample_db_def event42_def event7_def event43_def)

subsection \<open>Soft-deleted rows\<close>

lemma filter_remove1_unmatched: "\<not> P r \<Longrightarrow> filter P (remove1 r rs) = filter P rs"
  by (induction rs) auto

lemma find_remove1_unmatched: "\<not> P r \<Longrightarrow> find P (remove1 r rs) = find P rs"
  by (induction rs) auto

lemma without_row_simps:
  "rows (db (without_row r a)) = remove1 r (rows (db a))"
  "outage (db (without_row r a)) = outage (db a)"
  "like (db (without_row r a)) = like (db a)"
  by (simp_all add: without_row_def)

lemma reads_ignore_deleted:
  assumes "DeletedAt r \<noteq> 0"
  shows "fst (GetMonitorAlertEventById k (without_row r a)) = fst (GetMonitorAlertEventById k a)"
    and "fst (GetAlertEventByID k (without_row r a)) = fst (GetAlertEventByID k a)"
    and "fst (SearchMonitorAlertEventByName name (without_row r a)) = fst (SearchMonitorAlertEventByName name a)"
    and "fst (GetMonitorAlertEventList offset limit (without_row r a)) = fst (GetMonitorAlertEventList offset limit a)"
  using assms
  by (simp_all add: GetMonitorAlertEventById_fst GetAlertEventByID_fst
      SearchMonitorAlertEventByName_fst GetMonitorAlertEventList_fst without_row_simps
      filter_remove1_unmatched find_remove1_unmatched cong: option.case_cong)

lemma writes_ignore_deleted:
  assumes "DeletedAt r \<noteq> 0"
  shows "fst (EventAlertClaim ev (without_row r a)) = fst (EventAlertClaim ev a)"
    and "fst (UpdateAlertEvent ev (without_row r a)) = fst (UpdateAlertEvent ev a)"
  using assms
  by (simp_all add: EventAlertClaim_fst UpdateAlertEvent_fst without_row_simps filter_remove1_unmatched
      cong: option.case_cong)

lemma writes_keep_deleted:
  assumes "r \<in> set (rows (db a))" and "DeletedAt r \<noteq> 0"
  shows "r \<in> set (rows (db (snd (EventAlertClaim ev a))))"
    and "r \<in> set (rows (db (snd (UpdateAlertEvent ev a))))"
  using assms by (auto simp add: EventAlertClaim_rows UpdateAlertEvent_db image_iff intro!: bexI [of _ r])

lemma search_result_live:
  "fst (SearchMonitorAlertEventByName name a) = Inr xs \<Longrightarrow> x \<in> set xs \<Longrightarrow>
     x \<in> set (rows (db a)) \<and> DeletedAt x = 0"
  by (simp add: SearchMonitorAlertEventByName_fst split: if_splits option.splits) auto

lemma list_result_live:
  assumes "fst (GetMonitorAlertEventList offset limit a) = Inr xs" and "x \<in> set xs"
  shows "x \<in> set (rows (db a)) \<and> DeletedAt x = 0"
proof -
  from assms(1)
  have "xs = take (nat limit) (drop (nat offset)
      (created_at_desc (filter (\<lambda>r. DeletedAt r = 0) (rows (db a)))))"
    by (simp add: GetMonitorAlertEventList_fst split: if_splits option.splits)
  with assms(2) show ?thesis
    using page_subset by blast
qed

lemma deleted_row_matches_no_update:
  assumes "distinct (map ID (rows (db a)))" and "r \<in> set (rows (db a))" and "DeletedAt r \<noteq> 0"
    and "ID ev = ID r"
  shows "filter (\<lambda>x. ID x = ID ev \<and> DeletedAt x = 0) (rows (db a)) = []"
    and "\<exists>e. fst (EventAlertClaim ev a) = Inl e"
    and "\<exists>e. fst (UpdateAlertEvent ev a) = Inl e"
    and "rows (db (snd (EventAlertClaim ev a))) = rows (db a)"
    and "rows (db (snd (UpdateAlertEvent ev a))) = rows (db a)"
proof -
  from key_of_deleted [OF assms(1-3)] assms(4)
  have un: "\<forall>x\<in>set (rows (db a)). \<not> (ID x = ID ev \<and> DeletedAt x = 0)"
    by simp
  show f: "filter (\<lambda>x. ID x = ID ev \<and> DeletedAt x = 0) (rows (db a)) = []"
    using un by (rule filter_unmatched)
  have m: "\<And>g. map (\<lambda>x. if ID x = ID ev \<and> DeletedAt x = 0 then g x else x) (rows (db a)) = rows (db a)"
    using un by (rule map_unmatched)
  show "\<exists>e. fst (EventAlertClaim ev a) = Inl e"
    by (simp add: f EventAlertClaim_fst split: option.splits)
  show "\<exists>e. fst (UpdateAlertEvent ev a) = Inl e"
    by (simp add: UpdateAlertEvent_fst)
  show "rows (db (snd (EventAlertClaim ev a))) = rows (db a)"
    by (simp add: m EventAlertClaim_rows)
  show "rows (db (snd (UpdateAlertEvent ev a))) = rows (db a)"
    by (simp add: UpdateAlertEvent_db)
qed

lemma deleted_row_is_not_found:
  assumes "distinct (map ID (rows (db a)))" and "r \<in> set (rows (db a))" and "DeletedAt r \<noteq> 0"
    and "0 < ID r" and "outage (db a) SELECT = None"
  shows "fst (GetMonitorAlertEventById (ID r) a) = Inl (EventNotFound (ID r))"
    and "fst (GetAlertEventByID (ID r) a) = Inl (EventNotFound (ID r))"
  using key_of_deleted [OF assms(1-3)] assms(4,5)
  by (simp_all add: GetMonitorAlertEventById_fst GetAlertEventByID_fst find_no_live)

text \<open>
  C3. A soft-deleted row of the table (\<open>DeletedAt \<noteq> 0\<close>) is invisible. Search and
  list results never hold it, and hold live rows only. When ids are unique, a lookup of
  its id (positive, the \<open>SELECT\<close> running) returns \<open>EventNotFound\<close>, of kind
  \<open>NotFoundOrDeleted\<close>, from both lookups, and \<open>EventAlertClaim\<close> and
  \<open>UpdateAlertEvent\<close> with its id match zero rows, fail and leave every row as it
  was. Every method returns what it would return with the row taken off the table, and
  no update touches the row.
\<close>

theorem soft_deleted_is_invisible:
  assumes "r \<in> set (rows (db a))" and "DeletedAt r \<noteq> 0"
  shows "(\<forall>xs. fst (SearchMonitorAlertEventByName name a) = Inr xs \<longrightarrow>
            r \<notin> set xs \<and> (\<forall>x\<in>set xs. DeletedAt x = 0))
       \<and> (\<forall>xs. fst (GetMonitorAlertEventList offset limit a) = Inr xs \<longrightarrow>
            r \<notin> set xs \<and> (\<forall>x\<in>set xs. DeletedAt x = 0))
       \<and> (distinct (map ID (rows (db a))) \<and> 0 < ID r \<and> outage (db a) SELECT = None \<longrightarrow>
            fst (GetMonitorAlertEventById (ID r) a) = Inl (EventNotFound (ID r))
            \<and> fst (GetAlertEventByID (ID r) a) = Inl (EventNotFound (ID r))
            \<and> kind_of (EventNotFound (ID r)) = NotFoundOrDeleted)
       \<and> (distinct (map ID (rows (db a))) \<and> ID ev = ID r \<longrightarrow>
            filter (\<lambda>x. ID x = ID ev \<and> DeletedAt x = 0) (rows (db a)) = []
            \<and> (\<exists>e. fst (EventAlertClaim ev a) = Inl e)
            \<and> (\<exists>e. fst (UpdateAlertEvent ev a) = Inl e)
            \<and> rows (db (snd (EventAlertClaim ev a))) = rows (db a)
            \<and> rows (db (snd (UpdateAlertEvent ev a))) = rows (db a))
       \<and> fst (GetMonitorAlertEventById k (without_row r a)) = fst (GetMonitorAlertEventById k a)
       \<and> fst (GetAlertEventByID k (without_row r a)) = fst (GetAlertEventByID k a)
       \<and> fst (SearchMonitorAlertEventByName name (without_row r a)) = fst (SearchMonitorAlertEventByName name a)
       \<and> fst (GetMonitorAlertEventList offset limit (without_row r a)) = fst (GetMonitorAlertEventList offset limit a)
       \<and> fst (EventAlertClaim ev (without_row r a)) = fst (EventAlertClaim ev a)
       \<and> fst (UpdateAlertEvent ev (without_row r a)) = fst (UpdateAlertEvent ev a)
       \<and> r \<in> set (rows (db (snd (EventAlertClaim ev a))))
       \<and> r \<in> set (rows (db (snd (UpdateAlertEvent ev a))))"
proof -
  have search: "\<forall>xs. fst (SearchMonitorAlertEventByName name a) = Inr xs \<longrightarrow>
      r \<notin> set xs \<and> (\<forall>x\<in>set xs. DeletedAt x = 0)"
    using assms(2) search_result_live by blast
  have page: "\<forall>xs. fst (GetMonitorAlertEventList offset limit a) = Inr xs \<longrightarrow>
      r \<notin> set xs \<and> (\<forall>x\<in>set xs. DeletedAt x = 0)"
    using assms(2) list_result_live by blast
  have get: "distinct (map ID (rows (db a))) \<and> 0 < ID r \<and> outage (db a) SELECT = None \<longrightarrow>
      fst (GetMonitorAlertEventById (ID r) a) = Inl (EventNotFound (ID r))
      \<and> fst (GetAlertEventByID (ID r) a) = Inl (EventNotFound (ID r))
      \<and> kind_of (EventNotFound (ID r)) = NotFoundOrDeleted"
    using deleted_row_is_not_found [OF _ assms] by simp
  have upd: "distinct (map ID (rows (db a))) \<and> ID ev = ID r \<longrightarrow>
      filter (\<lambda>x. ID x = ID ev \<and> DeletedAt x = 0) (rows (db a)) = []
      \<and> (\<exists>e. fst (EventAlertClaim ev a) = Inl e)
      \<and> (\<exists>e. fst (UpdateAlertEvent ev a) = Inl e)
      \<and> rows (db (snd (EventAlertClaim ev a))) = rows (db a)
      \<and> rows (db (snd (UpdateAlertEvent ev a))) = rows (db a)"
    using deleted_row_matches_no_update [OF _ assms, of ev] by simp
  show ?thesis
    by (intro conjI search page get upd reads_ignore_deleted [OF assms(2)]
        writes_ignore_deleted [OF assms(2)] writes_keep_deleted [OF assms])
qed

theorem soft_deleted_is_invisible_witness:
  "event7 \<in> set (rows (db sample_dao)) \<and> DeletedAt event7 \<noteq> 0
   \<and> distinct (map ID (rows (db sample_dao)))
   \<and> fst (SearchMonitorAlertEventByName ''CPU'' sample_dao) = Inr [event42]
   \<and> fst (GetMonitorAlertEventList 0 5 sample_dao) = Inr [event43, event42]
   \<and> fst (GetMonitorAlertEventById 7 sample_dao) = Inl (EventNotFound 7)
   \<and> fst (GetAlertEventByID 7 sample_dao) = Inl (EventNotFound 7)
   \<and> fst (EventAlertClaim (blank_event\<lparr>ID := 7, RenLingUserID := 2\<rparr>) sample_dao)
       = Inl (EventNotFoundOrDeleted 7)
   \<and> fst (UpdateAlertEvent (blank_event\<lparr>ID := 7, RenLingUserID := 2\<rparr>) sample_dao)
       = Inl (Gorm ErrTableNotSet)
   \<and> rows (db (snd (EventAlertClaim (blank_event\<lparr>ID := 7, RenLingUserID := 2\<rparr>) sample_dao)))
       = [event42, event7, event43]"
  using soft_deleted_is_invisible [of event7 sample_dao "''CPU''" 0 5
      "blank_event\<lparr>ID := 7, RenLingUserID := 2\<rparr>" 7]
  by (simp add: SearchMonitorAlertEventByName_fst GetMonitorAlertEventList_fst
      GetMonitorAlertEventById_fst GetAlertEventByID_fst EventAlertClaim_fst UpdateAlertEvent_fst
      EventAlertClaim_rows created_at_desc_def sample_dao_def NewAlertManagerEventDAO_def
      sample_db_def blank_event_def event42_def event7_def event43_def)

lemma at_most_one_by_key:
  "distinct (map ID rs) \<Longrightarrow> length (filter (\<lambda>r. ID r = k \<and> P r) rs) \<le> 1"
proof (induction rs)
  case Nil
  then show ?case by simp
next
  case (Cons x rs)
  show ?case
  proof (cases "ID x = k")
    case True
    with Cons.prems have "\<forall>r\<in>set rs. \<not> (ID r = k \<and> P r)"
      by (auto simp: image_iff)
    then have "filter (\<lambda>r. ID r = k \<and> P r) rs = []"
      by (rule filter_unmatched)
    then show ?thesis by simp
  next
    case False
    with Cons show ?thesis by simp
  qed
qed

lemma list_all2_map_same:
  "(\<forall>x\<in>set xs. P x (f x)) \<Longrightarrow> list_all2 P xs (map f xs)"
  by (simp add: list_all2_map2 list_all2_same)

lemma EventAlertClaim_succeeds_iff:
  "fst (EventAlertClaim ev a) = Inr () \<longleftrightarrow>
     0 < ID ev \<and> outage (db a) UPDATE_Model = None \<and> (\<exists>r\<in>set (rows (db a)). ID r = ID ev \<and> DeletedAt r = 0)"
  by (auto simp add: EventAlertClaim_fst filter_empty_conv split: option.splits)

subsection \<open>What an update writes\<close>

text \<open>
  C10, at an update of event 43, live and claimed by operator 1, with a new status.
  \<open>UpdateAlertEvent\<close> does not succeed and overwrites nothing: GORM refuses the
  statement, which names no table, the method returns that error, and row 43 with every
  other row is as it was. The map with the nine columns is never applied.
\<close>

theorem update_of_live_row_is_refused:
  "event43 \<in> set (rows (db sample_dao)) \<and> DeletedAt event43 = 0
   \<and> fst (UpdateAlertEvent (event43\<lparr>Status := ''resolved'', RenLingUserID := 0\<rparr>) sample_dao)
       = Inl (Gorm ErrTableNotSet)
   \<and> rows (db (snd (UpdateAlertEvent (event43\<lparr>Status := ''resolved'', RenLingUserID := 0\<rparr>)
        sample_dao))) = [event42, event7, event43]
   \<and> issued (db (snd (UpdateAlertEvent (event43\<lparr>Status := ''resolved'', RenLingUserID := 0\<rparr>)
        sample_dao))) = []"
  by (simp add: UpdateAlertEvent_fst UpdateAlertEvent_db sample_dao_def
      NewAlertManagerEventDAO_def sample_db_def event42_def event7_def event43_def)

subsection \<open>Claiming an event\<close>

text \<open>
  C1, as stated, fails: event 43 is claimed by operator 1; a claim by operator 2
  succeeds and the stored row now names operator 2.
\<close>

theorem claim_takes_over_counterexample:
  "event43 \<in> set (rows (db sample_dao)) \<and> RenLingUserID event43 = 1
   \<and> fst (EventAlertClaim (blank_event\<lparr>ID := 43, RenLingUserID := 2\<rparr>) sample_dao) = Inr ()
   \<and> rows (db (snd (EventAlertClaim (blank_event\<lparr>ID := 43, RenLingUserID := 2\<rparr>) sample_dao)))
       = [event42, event7, event43\<lparr>UpdatedAt := 2000, RenLingUserID := 2\<rparr>]"
  by (simp add: EventAlertClaim_fst EventAlertClaim_rows updates_struct_def sample_dao_def
      NewAlertManagerEventDAO_def sample_db_def blank_event_def event42_def event7_def event43_def)

text \<open>
  C1, amended. \<open>EventAlertClaim\<close> does not read the stored \<open>RenLingUserID\<close>. It
  succeeds exactly when the id is positive, its statement runs and a live row with that
  id exists; with unique ids exactly one row is affected. On success a live row with
  that id gets the argument's \<open>RenLingUserID\<close> when that is not zero, whoever held
  the claim before, and keeps its own otherwise; other rows are unchanged. No error it
  returns is of kind \<open>ClaimConflict\<close>.
\<close>

theorem claim_is_last_write_wins:
  "(fst (EventAlertClaim ev a) = Inr () \<longleftrightarrow>
      0 < ID ev \<and> outage (db a) UPDATE_Model = None
      \<and> (\<exists>r\<in>set (rows (db a)). ID r = ID ev \<and> DeletedAt r = 0))
   \<and> (fst (EventAlertClaim ev a) = Inr () \<and> distinct (map ID (rows (db a))) \<longrightarrow>
        length (filter (\<lambda>r. ID r = ID ev \<and> DeletedAt r = 0) (rows (db a))) = 1)
   \<and> (fst (EventAlertClaim ev a) = Inr () \<longrightarrow>
        list_all2
          (\<lambda>r r'. if ID r = ID ev \<and> DeletedAt r = 0
             then RenLingUserID r' = (if RenLingUserID ev \<noteq> 0 then RenLingUserID ev else RenLingUserID r)
             else r' = r)
          (rows (db a)) (rows (db (snd (EventAlertClaim ev a)))))
   \<and> (\<forall>e. fst (EventAlertClaim ev a) = Inl e \<longrightarrow> kind_of e \<noteq> ClaimConflict)"
proof (intro conjI)
  show "fst (EventAlertClaim ev a) = Inr () \<longleftrightarrow>
      0 < ID ev \<and> outage (db a) UPDATE_Model = None
      \<and> (\<exists>r\<in>set (rows (db a)). ID r = ID ev \<and> DeletedAt r = 0)"
    by (rule EventAlertClaim_succeeds_iff)
next
  show "fst (EventAlertClaim ev a) = Inr () \<and> distinct (map ID (rows (db a))) \<longrightarrow>
      length (filter (\<lambda>r. ID r = ID ev \<and> DeletedAt r = 0) (rows (db a))) = 1"
  proof (intro impI, elim conjE)
    assume s: "fst (EventAlertClaim ev a) = Inr ()" and d: "distinct (map ID (rows (db a)))"
    from s have "filter (\<lambda>r. ID r = ID ev \<and> DeletedAt r = 0) (rows (db a)) \<noteq> []"
      by (simp add: EventAlertClaim_succeeds_iff filter_empty_conv)
    then have "0 < length (filter (\<lambda>r. ID r = ID ev \<and> DeletedAt r = 0) (rows (db a)))"
      by simp
    moreover have "length (filter (\<lambda>r. ID r = ID ev \<and> DeletedAt r = 0) (rows (db a))) \<le> 1"
      using d by (rule at_most_one_by_key)
    ultimately show "length (filter (\<lambda>r. ID r = ID ev \<and> DeletedAt r = 0) (rows (db a))) = 1"
      by linarith
  qed
next
  show "fst (EventAlertClaim ev a) = Inr () \<longrightarrow>
      list_all2
        (\<lambda>r r'. if ID r = ID ev \<and> DeletedAt r = 0
           then RenLingUserID r' = (if RenLingUserID ev \<noteq> 0 then RenLingUserID ev else RenLingUserID r)
           else r' = r)
        (rows (db a)) (rows (db (snd (EventAlertClaim ev a))))"
  proof
    assume "fst (EventAlertClaim ev a) = Inr ()"
    then have "rows (db (snd (EventAlertClaim ev a))) =
        map (\<lambda>r. if ID r = ID ev \<and> DeletedAt r = 0 then updates_struct ev (clock a) r else r)
          (rows (db a))"
      by (simp add: EventAlertClaim_succeeds_iff EventAlertClaim_rows)
    then show "list_all2
        (\<lambda>r r'. if ID r = ID ev \<and> DeletedAt r = 0
           then RenLingUserID r' = (if RenLingUserID ev \<noteq> 0 then RenLingUserID ev else RenLingUserID r)
           else r' = r)
        (rows (db a)) (rows (db (snd (EventAlertClaim ev a))))"
      by (simp only:, intro list_all2_map_same) (simp add: updates_struct_def)
  qed
next
  show "\<forall>e. fst (EventAlertClaim ev a) = Inl e \<longrightarrow> kind_of e \<noteq> ClaimConflict"
    by (auto simp add: EventAlertClaim_fst split: if_splits option.splits)
qed

theorem claim_is_last_write_wins_witness:
  "distinct (map ID (rows (db sample_dao)))
   \<and> fst (EventAlertClaim (blank_event\<lparr>ID := 43, RenLingUserID := 2\<rparr>) sample_dao) = Inr ()
   \<and> length (filter (\<lambda>r. ID r = 43 \<and> DeletedAt r = 0) (rows (db sample_dao))) = 1
   \<and> map RenLingUserID (rows (db sample_dao)) = [0, 0, 1]
   \<and> map RenLingUserID
        (rows (db (snd (EventAlertClaim (blank_event\<lparr>ID := 43, RenLingUserID := 2\<rparr>) sample_dao))))
       = [0, 0, 2]"
  using claim_is_last_write_wins [of "blank_event\<lparr>ID := 43, RenLingUserID := 2\<rparr>" sample_dao]
  by (simp add: EventAlertClaim_fst EventAlertClaim_rows updates_struct_def sample_dao_def
      NewAlertManagerEventDAO_def sample_db_def blank_event_def event42_def event7_def event43_def)

subsection \<open>The time of the last mutation\<close>

lemma EventAlertClaim_env:
  "outage (db (snd (EventAlertClaim ev a))) = outage (db a)"
  "clock (snd (EventAlertClaim ev a)) = clock a"
  by (simp_all add: EventAlertClaim_def gorm_Updates_def gorm_issue_def log_line_def
      split: option.splits)

lemma claim_length: "length (rows (db (snd (EventAlertClaim ev a)))) = length (rows (db a))"
  by (simp add: EventAlertClaim_rows)

lemma claim_target:
  assumes "fst (EventAlertClaim ev a) = Inr ()"
  shows "\<exists>i<length (rows (db a)). ID (rows (db a) ! i) = ID ev \<and> DeletedAt (rows (db a) ! i) = 0"
proof -
  from assms have "\<exists>r\<in>set (rows (db a)). ID r = ID ev \<and> DeletedAt r = 0"
    by (simp add: EventAlertClaim_succeeds_iff)
  then show ?thesis
    by (metis in_set_conv_nth)
qed

lemma claim_stamp:
  assumes "fst (EventAlertClaim ev a) = Inr ()" and "i < length (rows (db a))"
    and "ID (rows (db a) ! i) = ID ev" and "DeletedAt (rows (db a) ! i) = 0"
  shows "UpdatedAt (rows (db (snd (EventAlertClaim ev a))) ! i) = clock a"
proof -
  from assms(1) have "0 < ID ev" "outage (db a) UPDATE_Model = None"
    by (simp_all add: EventAlertClaim_succeeds_iff)
  with assms(2-4) show ?thesis
    by (simp add: EventAlertClaim_rows updates_struct_def)
qed

text \<open>
  C5, as stated, fails: two claims of event 42, both successful and both within the
  second 2000, leave \<open>UpdatedAt\<close> at 2000 after the first and at 2000 after the
  second. It has not strictly increased.
\<close>

theorem updated_at_same_second_counterexample:
  "clock sample_dao = 2000
   \<and> fst (EventAlertClaim (blank_event\<lparr>ID := 42, RenLingUserID := 2\<rparr>) sample_dao) = Inr ()
   \<and> map UpdatedAt
        (rows (db (snd (EventAlertClaim (blank_event\<lparr>ID := 42, RenLingUserID := 2\<rparr>) sample_dao))))
       = [2000, 1500, 1200]
   \<and> fst (EventAlertClaim (blank_event\<lparr>ID := 42, RenLingUserID := 2\<rparr>)
        ((snd (EventAlertClaim (blank_event\<lparr>ID := 42, RenLingUserID := 2\<rparr>) sample_dao))
           \<lparr>clock := 2000\<rparr>))
       = Inr ()
   \<and> map UpdatedAt (rows (db (snd (EventAlertClaim (blank_event\<lparr>ID := 42, RenLingUserID := 2\<rparr>)
        ((snd (EventAlertClaim (blank_event\<lparr>ID := 42, RenLingUserID := 2\<rparr>) sample_dao))
           \<lparr>clock := 2000\<rparr>)))))
       = [2000, 1500, 1200]"
  by (simp add: EventAlertClaim_fst EventAlertClaim_rows EventAlertClaim_env updates_struct_def
      sample_dao_def NewAlertManagerEventDAO_def sample_db_def blank_event_def event42_def
      event7_def event43_def)

text \<open>
  C5, amended. A successful \<open>EventAlertClaim\<close> keeps the number of rows, has a live
  row with the event's id to write to, and sets \<open>UpdatedAt\<close> of every such row to the
  clock's reading (Unix seconds) at the call. So when a second successful claim, made at
  the reading \<open>t\<close>, writes to the same row, \<open>UpdatedAt\<close> goes from the first
  reading to \<open>t\<close>: it increases by as much as the clock's reading has, and stays equal
  within the same second.
\<close>

theorem claim_stamps_clock:
  assumes "fst (EventAlertClaim ev a) = Inr ()"
  shows "length (rows (db (snd (EventAlertClaim ev a)))) = length (rows (db a))
       \<and> (\<exists>i<length (rows (db a)). ID (rows (db a) ! i) = ID ev \<and> DeletedAt (rows (db a) ! i) = 0)
       \<and> (\<forall>i<length (rows (db a)).
            ID (rows (db a) ! i) = ID ev \<and> DeletedAt (rows (db a) ! i) = 0 \<longrightarrow>
            UpdatedAt (rows (db (snd (EventAlertClaim ev a))) ! i) = clock a)
       \<and> (\<forall>ev' t i.
            fst (EventAlertClaim ev' ((snd (EventAlertClaim ev a))\<lparr>clock := t\<rparr>)) = Inr ()
            \<and> i < length (rows (db a))
            \<and> ID (rows (db a) ! i) = ID ev \<and> DeletedAt (rows (db a) ! i) = 0
            \<and> ID (rows (db (snd (EventAlertClaim ev a))) ! i) = ID ev'
            \<and> DeletedAt (rows (db (snd (EventAlertClaim ev a))) ! i) = 0 \<longrightarrow>
            UpdatedAt (rows (db (snd (EventAlertClaim ev a))) ! i) = clock a
            \<and> UpdatedAt
                 (rows (db (snd (EventAlertClaim ev' ((snd (EventAlertClaim ev a))\<lparr>clock := t\<rparr>)))) ! i)
               = t)"
proof (intro conjI allI impI)
  show "length (rows (db (snd (EventAlertClaim ev a)))) = length (rows (db a))"
    by (rule claim_length)
next
  show "\<exists>i<length (rows (db a)). ID (rows (db a) ! i) = ID ev \<and> DeletedAt (rows (db a) ! i) = 0"
    using assms by (rule claim_target)
next
  fix i
  assume "i < length (rows (db a))"
    and "ID (rows (db a) ! i) = ID ev \<and> DeletedAt (rows (db a) ! i) = 0"
  with assms show "UpdatedAt (rows (db (snd (EventAlertClaim ev a))) ! i) = clock a"
    by (simp add: claim_stamp)
next
  fix ev' t i
  assume h: "fst (EventAlertClaim ev' ((snd (EventAlertClaim ev a))\<lparr>clock := t\<rparr>)) = Inr ()
      \<and> i < length (rows (db a))
      \<and> ID (rows (db a) ! i) = ID ev \<and> DeletedAt (rows (db a) ! i) = 0
      \<and> ID (rows (db (snd (EventAlertClaim ev a))) ! i) = ID ev'
      \<and> DeletedAt (rows (db (snd (EventAlertClaim ev a))) ! i) = 0"
  with assms show "UpdatedAt (rows (db (snd (EventAlertClaim ev a))) ! i) = clock a"
    by (simp add: claim_stamp)
next
  fix ev' t i
  assume h: "fst (EventAlertClaim ev' ((snd (EventAlertClaim ev a))\<lparr>clock := t\<rparr>)) = Inr ()
      \<and> i < length (rows (db a))
      \<and> ID (rows (db a) ! i) = ID ev \<and> DeletedAt (rows (db a) ! i) = 0
      \<and> ID (rows (db (snd (EventAlertClaim ev a))) ! i) = ID ev'
      \<and> DeletedAt (rows (db (snd (EventAlertClaim ev a))) ! i) = 0"
  let ?mid = "(snd (EventAlertClaim ev a))\<lparr>clock := t\<rparr>"
  have len: "i < length (rows (db ?mid))"
    using h by (simp add: claim_length)
  have "UpdatedAt (rows (db (snd (EventAlertClaim ev' ?mid))) ! i) = clock ?mid"
    using h len by (intro claim_stamp) simp_all
  then show "UpdatedAt
      (rows (db (snd (EventAlertClaim ev' ((snd (EventAlertClaim ev a))\<lparr>clock := t\<rparr>)))) ! i) = t"
    by simp
qed

theorem claim_stamps_clock_witness:
  "fst (EventAlertClaim (blank_event\<lparr>ID := 42, RenLingUserID := 2\<rparr>) sample_dao) = Inr ()
   \<and> map UpdatedAt (rows (db sample_dao)) = [1000, 1500, 1200]
   \<and> clock sample_dao = 2000
   \<and> map UpdatedAt
        (rows (db (snd (EventAlertClaim (blank_event\<lparr>ID := 42, RenLingUserID := 2\<rparr>) sample_dao))))
       = [2000, 1500, 1200]
   \<and> fst (EventAlertClaim (blank_event\<lparr>ID := 42, RenLingUserID := 2\<rparr>)
        ((snd (EventAlertClaim (blank_event\<lparr>ID := 42, RenLingUserID := 2\<rparr>) sample_dao))
           \<lparr>clock := 2003\<rparr>))
       = Inr ()
   \<and> map UpdatedAt (rows (db (snd (EventAlertClaim (blank_event\<lparr>ID := 42, RenLingUserID := 2\<rparr>)
        ((snd (EventAlertClaim (blank_event\<lparr>ID := 42, RenLingUserID := 2\<rparr>) sample_dao))
           \<lparr>clock := 2003\<rparr>)))))
       = [2003, 1500, 1200]"
  using claim_stamps_clock [of "blank_event\<lparr>ID := 42, RenLingUserID := 2\<rparr>" sample_dao]
  by (simp add: EventAlertClaim_fst EventAlertClaim_rows EventAlertClaim_env updates_struct_def
      sample_dao_def NewAlertManagerEventDAO_def sample_db_def blank_event_def event42_def
      event7_def event43_def)

subsection \<open>Sending a message\<close>

text \<open>
  With a url and a message that are not empty, \<open>SendMessageToGroup\<close> puts one request
  on the wire and turns the answer into its result; a message made of characters that
  JSON lets stand unescaped is read back from the body as it was sent.
\<close>

lemma message_content_split:
  "message_content message = content_prefix @ message @ [quotation_mark, CHR ''}'', CHR ''}'']"
  by (simp add: message_content_def content_prefix_def quotation_mark_def)

lemma json_chars_step:
  "xs \<noteq> [] \<Longrightarrow> json_plain c \<Longrightarrow>
     json_chars (c # xs) = (case json_chars xs of None \<Rightarrow> None | Some (t, rest) \<Rightarrow> Some (c # t, rest))"
  by (cases xs) (simp_all add: json_plain_def)

lemma json_chars_quote: "json_chars (quotation_mark # rest) = Some ([], rest)"
  by (cases rest) simp_all

lemma json_chars_plain:
  "list_all json_plain message \<Longrightarrow> json_chars (message @ quotation_mark # rest) = Some (message, rest)"
  by (induction message) (simp_all add: json_chars_quote json_chars_step)

lemma plain_message_reads_back:
  "list_all json_plain message \<Longrightarrow> content_text (message_content message) = Some message"
  by (simp add: content_text_def message_content_split json_chars_plain)

lemma SendMessageToGroup_posts_once:
  assumes "u \<noteq> []" and "message \<noteq> []"
  shows "wire (httpClient (snd (SendMessageToGroup u message a))) =
           wire (httpClient a)
             @ [\<lparr>verb = ''POST'', url = u, body = message_content message,
                 deadline = Timeout (httpClient a)\<rparr>]"
    and "fst (SendMessageToGroup u message a) =
           (case remote (httpClient a)
                   \<lparr>verb = ''POST'', url = u, body = message_content message,
                    deadline = Timeout (httpClient a)\<rparr> of
              Inl failure \<Rightarrow> Inl (SendFailed failure)
            | Inr resp \<Rightarrow> Inr ())"
  using assms
  by (simp_all add: SendMessageToGroup_def PostWithJson_def Let_def httpClient_log_line
      split: sum.splits)

text \<open>
  C7, at the message \<open>a"b\<close>. One POST goes on the wire, with the timeout of 10
  seconds, and its body is the format string with the message put in byte for byte. Read
  as JSON, the string that starts after the prefix ends at the message's own quotation
  mark: its text is \<open>a\<close>, and what follows is not the end of the document. So the
  body is not a JSON document whose text is the message. (The message \<open>ab\<close> is read
  back as it was sent.)
\<close>

theorem quoted_message_breaks_the_payload:
  "wire (httpClient (snd (SendMessageToGroup ''http://x'' [CHR ''a'', CHR 0x22, CHR ''b''] sample_dao)))
     = [\<lparr>verb = ''POST'', url = ''http://x'',
         body = content_prefix @ [CHR ''a'', CHR 0x22, CHR ''b'', CHR 0x22, CHR ''}'', CHR ''}''],
         deadline = 10\<rparr>]
   \<and> json_chars [CHR ''a'', CHR 0x22, CHR ''b'', CHR 0x22, CHR ''}'', CHR ''}'']
       = Some (''a'', [CHR ''b'', CHR 0x22, CHR ''}'', CHR ''}''])
   \<and> content_text (content_prefix @ [CHR ''a'', CHR 0x22, CHR ''b'', CHR 0x22, CHR ''}'', CHR ''}''])
       = None
   \<and> content_text (message_content ''ab'') = Some ''ab''"
  by (simp add: SendMessageToGroup_posts_once message_content_split content_text_def
      quotation_mark_def reverse_solidus_def json_plain_def sample_dao_def
      NewAlertManagerEventDAO_def content_prefix_def)

end
